theory Spec2Isabelle
  imports Main
begin

section \<open>Python values and string formatting\<close>

text \<open>
  The methods of class \<open>TBA\<close> (src/tbapy/main.py) are dynamically typed: a team may be an
  integer or a string, a year an integer, a string or \<open>None\<close>, a flag any value that is tested
  for truth. The arguments are therefore values of one type \<open>pyval\<close>, covering \<open>None\<close>,
  booleans, (unbounded) integers and strings. A \<open>char\<close> stands for one code point below 256
  of a Python 3 \<open>str\<close>.
\<close>

datatype pyval = PNone | PBool bool | PInt int | PStr string

text \<open>Truth value testing, as done by \<open>if year:\<close>, \<open>if keys:\<close>, \<open>if key:\<close>.\<close>

fun truthy :: "pyval \<Rightarrow> bool" where
  "truthy PNone = False"
| "truthy (PBool b) = b"
| "truthy (PInt i) = (i \<noteq> 0)"
| "truthy (PStr s) = (s \<noteq> [])"

text \<open>The decimal digits of a natural number, most significant first.\<close>

fun digits :: "nat \<Rightarrow> string" where
  "digits n =
     (if n < 10 then [''0123456789'' ! n]
      else digits (n div 10) @ [''0123456789'' ! (n mod 10)])"

declare digits.simps [simp del]

text \<open>Reading a digit string back as a number, to say what \<open>digits\<close> computes.\<close>

fun digit_value :: "char \<Rightarrow> nat" where
  "digit_value c = (of_char c - 48)"

definition read_digits :: "string \<Rightarrow> nat" where
  "read_digits cs = foldl (\<lambda>acc c. 10 * acc + digit_value c) 0 cs"

text \<open>\<open>str(i)\<close> for an integer: a minus sign for a negative number, then the digits.\<close>

definition str_int :: "int \<Rightarrow> string" where
  "str_int i = (if i < 0 then CHR ''-'' # digits (nat (- i)) else digits (nat i))"

text \<open>
  The conversion \<open>'%s' % v\<close> applies \<open>str\<close> to the value. A boolean is not an integer
  here: \<open>str(True)\<close> is \<open>'True'\<close>.
\<close>

fun str :: "pyval \<Rightarrow> string" where
  "str PNone = ''None''"
| "str (PBool b) = (if b then ''True'' else ''False'')"
| "str (PInt i) = str_int i"
| "str (PStr s) = s"

text \<open>
  \<open>c.isdigit()\<close> for a one-character string: the ASCII digits and, among the code points
  below 256, the superscript digits two, three and one (U+00B2, U+00B3, U+00B9), which
  Python 3 also counts as digits.
\<close>

definition isdigit :: "char \<Rightarrow> bool" where
  "isdigit c = (c \<in> set ''0123456789'' \<or> c \<in> {CHR 0xB2, CHR 0xB3, CHR 0xB9})"

section \<open>The key normalizer\<close>

text \<open>
  \<^verbatim>\<open>
  def team_key(self, identifier):
      return (identifier if type(identifier) == str else 'frc%s' % identifier)
  \<close>
  The method reads nothing of \<open>self\<close>.
\<close>

fun team_key :: "pyval \<Rightarrow> string" where
  "team_key (PStr s) = s"
| "team_key v = ''frc'' @ str v"

section \<open>Decoded JSON, exceptions, the network\<close>

text \<open>
  What \<open>response.json()\<close> returns. A decoded object is kept as its items in order; the
  payload is never inspected by the client beyond iteration and the \<open>Error\<close> test of the
  constructor, so numbers are kept as integers.
\<close>

datatype json =
  JNull | JBool bool | JNum int | JStr string | JArr "json list" | JObj "(string \<times> json) list"

text \<open>
  \<open>get(...).json()\<close> may raise instead of returning: the transport fails (connection,
  timeout) or the body is not JSON. These are the only failures the remote end can cause.
\<close>

datatype failure = ConnectionFailed | BodyNotJSON

datatype exn =
  RequestFailed failure
| TypeError
| IndexError
| KeyError
| APIKeyError json

text \<open>
  A request is the URL and the headers handed to \<open>requests.get\<close>, the only transport
  call of the module: every request is a GET. The remote end is a function from the
  requests seen so far and the present request to its outcome.
\<close>

record request =
  url :: string
  headers :: "(string \<times> string) list"

type_synonym server = "request list \<Rightarrow> request \<Rightarrow> failure + json"

text \<open>
  \<^verbatim>\<open>
  class TBA:
      URL_PRE = 'https://www.thebluealliance.com/api/v3/'
      auth_key = ''
  \<close>
  The state a method runs in is the object and the log of the requests issued so far.
\<close>

record TBA =
  URL_PRE :: string
  auth_key :: string

record state =
  client :: TBA
  sent :: "request list"

section \<open>The record wrappers\<close>

text \<open>
  Modelled from the spec: the classes \<open>Status\<close>, \<open>Team\<close>, \<open>Event\<close>, \<open>Match\<close>, \<open>Award\<close>, ...
  come from \<open>from .models import *\<close>, and tbapy/models.py is not among the sources. The
  spec (section 4.1) describes one generic container over a decoded JSON value, the class
  name being documentation only; construction raises no error whatever the shape, a field
  is read by key, and reading an absent field fails. A wrapper is therefore the class name
  with the wrapped value, \<open>k in obj\<close> holds when the wrapped mapping has the field \<open>k\<close>, and
  \<open>obj[k]\<close> reads it.
\<close>

datatype model = Model string json

definition contains :: "string \<Rightarrow> model \<Rightarrow> bool" where
  "contains k m = (case m of Model cls (JObj kvs) \<Rightarrow> k \<in> set (map fst kvs) | _ \<Rightarrow> False)"

definition getitem :: "model \<Rightarrow> string \<Rightarrow> exn + json" where
  "getitem m k =
     (case m of
        Model cls (JObj kvs) \<Rightarrow> (case map_of kvs k of Some v \<Rightarrow> Inr v | None \<Rightarrow> Inl KeyError)
      | _ \<Rightarrow> Inl KeyError)"

text \<open>What a method hands back: \<open>None\<close>, the decoded JSON itself, a wrapper, or a list of them.\<close>

datatype result = RNone | RJson json | RModel model | RList "model list"

section \<open>The request dispatcher\<close>

text \<open>
  \<^verbatim>\<open>
  def _fetch(self, url):
      return get(self.URL_PRE + url, headers={'X-TBA-Auth-Key': self.auth_key}).json()
  \<close>
\<close>

definition request_of :: "TBA \<Rightarrow> string \<Rightarrow> request" where
  "request_of self path =
     \<lparr>url = URL_PRE self @ path, headers = [(''X-TBA-Auth-Key'', auth_key self)]\<rparr>"

definition fetch :: "server \<Rightarrow> string \<Rightarrow> state \<Rightarrow> (exn + json) \<times> state" where
  "fetch srv path s =
     (let r = request_of (client s) path
      in (case srv (sent s) r of Inl f \<Rightarrow> Inl (RequestFailed f) | Inr j \<Rightarrow> Inr j,
          s\<lparr>sent := sent s @ [r]\<rparr>))"

text \<open>
  What is done with the value of a call that returned; an exception passes through.
\<close>

definition returning ::
  "('a \<Rightarrow> exn + 'b) \<Rightarrow> (exn + 'a) \<times> state \<Rightarrow> (exn + 'b) \<times> state" where
  "returning f p = (case p of (Inl e, s) \<Rightarrow> (Inl e, s) | (Inr x, s) \<Rightarrow> (f x, s))"

text \<open>\<open>return self._fetch(...)\<close>: the decoded JSON as it is.\<close>

definition raw :: "json \<Rightarrow> exn + result" where
  "raw j = Inr (RJson j)"

text \<open>\<open>return Team(self._fetch(...))\<close>: one wrapper, named \<open>cls\<close>.\<close>

definition wrap :: "string \<Rightarrow> json \<Rightarrow> exn + result" where
  "wrap cls j = Inr (RModel (Model cls j))"

text \<open>
  \<open>for raw in value\<close>: a list gives its elements, a mapping its keys, a string its
  characters; \<open>None\<close>, a boolean and a number are not iterable.
\<close>

fun iter :: "json \<Rightarrow> exn + json list" where
  "iter (JArr xs) = Inr xs"
| "iter (JObj kvs) = Inr (map (\<lambda>kv. JStr (fst kv)) kvs)"
| "iter (JStr cs) = Inr (map (\<lambda>c. JStr [c]) cs)"
| "iter JNull = Inl TypeError"
| "iter (JBool b) = Inl TypeError"
| "iter (JNum n) = Inl TypeError"

text \<open>\<open>return [Team(raw) for raw in self._fetch(...)]\<close>.\<close>

definition wrap_each :: "string \<Rightarrow> json \<Rightarrow> exn + result" where
  "wrap_each cls j =
     (case iter j of Inl e \<Rightarrow> Inl e | Inr xs \<Rightarrow> Inr (RList (map (Model cls) xs)))"

section \<open>The facade\<close>

text \<open>
  One definition per method of \<open>TBA\<close>, in the order of the source. Every parameter is
  passed explicitly; the defaults of the source are \<open>year=None\<close>, \<open>event=None\<close>,
  \<open>keys=False\<close>, \<open>simple=False\<close>, \<open>key=None\<close>, \<open>type='qm'\<close>, \<open>number=None\<close>,
  \<open>round=None\<close>. The parameters \<open>team\<close>, \<open>event\<close>, \<open>type\<close> and \<open>round\<close> are written
  \<open>tm\<close>, \<open>ev\<close>, \<open>ty\<close> and \<open>rnd\<close>. A format \<open>'a/%s/b' % x\<close> is the concatenation
  \<open>''a/'' @ str x @ ''/b''\<close>.
\<close>

definition status :: "server \<Rightarrow> state \<Rightarrow> (exn + model) \<times> state" where
  "status srv s = returning (\<lambda>j. Inr (Model ''Status'' j)) (fetch srv ''status'' s)"

definition teams :: "server \<Rightarrow> pyval \<Rightarrow> pyval \<Rightarrow> pyval \<Rightarrow> state \<Rightarrow> (exn + result) \<times> state" where
  "teams srv page year keys s =
     (if truthy year then
        if truthy keys
        then returning raw (fetch srv (''teams/'' @ str year @ ''/'' @ str page @ ''/keys'') s)
        else returning (wrap_each ''Team'')
               (fetch srv (''teams/'' @ str year @ ''/'' @ str page) s)
      else
        if truthy keys
        then returning raw (fetch srv (''teams/'' @ str page @ ''/keys'') s)
        else returning (wrap_each ''Team'') (fetch srv (''teams/'' @ str page) s))"

definition team :: "server \<Rightarrow> pyval \<Rightarrow> pyval \<Rightarrow> state \<Rightarrow> (exn + result) \<times> state" where
  "team srv tm simple s =
     (if truthy simple
      then returning (wrap ''Team'') (fetch srv (''team/'' @ team_key tm @ ''/simple'') s)
      else returning (wrap ''Team'') (fetch srv (''team/'' @ team_key tm) s))"

definition team_events ::
  "server \<Rightarrow> pyval \<Rightarrow> pyval \<Rightarrow> pyval \<Rightarrow> state \<Rightarrow> (exn + result) \<times> state" where
  "team_events srv tm year keys s =
     (if truthy year then
        if truthy keys
        then returning raw
               (fetch srv (''team/'' @ team_key tm @ ''/events/'' @ str year @ ''/keys'') s)
        else returning (wrap_each ''Event'')
               (fetch srv (''team/'' @ team_key tm @ ''/events/'' @ str year) s)
      else
        if truthy keys
        then returning raw (fetch srv (''team/'' @ team_key tm @ ''/events/keys'') s)
        else returning (wrap_each ''Event'')
               (fetch srv (''team/'' @ team_key tm @ ''/events'') s))"

definition team_awards ::
  "server \<Rightarrow> pyval \<Rightarrow> pyval \<Rightarrow> pyval \<Rightarrow> state \<Rightarrow> (exn + result) \<times> state" where
  "team_awards srv tm year ev s =
     (if truthy ev
      then returning (wrap_each ''Award'')
             (fetch srv (''team/'' @ team_key tm @ ''/event/'' @ str ev @ ''/awards'') s)
      else
        if truthy year
        then returning (wrap_each ''Award'')
               (fetch srv (''team/'' @ team_key tm @ ''/awards/'' @ str year) s)
        else returning (wrap_each ''Award'')
               (fetch srv (''team/'' @ team_key tm @ ''/awards'') s))"

text \<open>
  \<open>team_matches\<close> has no \<open>else\<close> after \<open>elif year:\<close>: with neither an event nor a year
  the body ends, and the method returns \<open>None\<close>.
\<close>

definition team_matches ::
  "server \<Rightarrow> pyval \<Rightarrow> pyval \<Rightarrow> pyval \<Rightarrow> pyval \<Rightarrow> state \<Rightarrow> (exn + result) \<times> state" where
  "team_matches srv tm ev year keys s =
     (if truthy ev then
        if truthy keys
        then returning raw
               (fetch srv
                  (''team/'' @ team_key tm @ ''/event/'' @ str ev @ ''/matches/keys'') s)
        else returning (wrap_each ''Match'')
               (fetch srv (''team/'' @ team_key tm @ ''/event/'' @ str ev @ ''/matches'') s)
      else if truthy year then
        if truthy keys
        then returning raw
               (fetch srv (''team/'' @ team_key tm @ ''/matches/'' @ str year @ ''/keys'') s)
        else returning (wrap_each ''Match'')
               (fetch srv (''team/'' @ team_key tm @ ''/matches/'' @ str year) s)
      else (Inr RNone, s))"

definition team_years :: "server \<Rightarrow> pyval \<Rightarrow> state \<Rightarrow> (exn + result) \<times> state" where
  "team_years srv tm s =
     returning raw (fetch srv (''team/'' @ team_key tm @ ''/years_participated'') s)"

definition team_media :: "server \<Rightarrow> pyval \<Rightarrow> pyval \<Rightarrow> state \<Rightarrow> (exn + result) \<times> state" where
  "team_media srv tm year s =
     returning (wrap_each ''Media'')
       (fetch srv (''team/'' @ team_key tm @ ''/media/'' @ str year) s)"

definition team_robots :: "server \<Rightarrow> pyval \<Rightarrow> state \<Rightarrow> (exn + result) \<times> state" where
  "team_robots srv tm s =
     returning (wrap_each ''Robot'') (fetch srv (''team/'' @ team_key tm @ ''/robots'') s)"

definition team_districts :: "server \<Rightarrow> pyval \<Rightarrow> state \<Rightarrow> (exn + result) \<times> state" where
  "team_districts srv tm s =
     returning (wrap_each ''District'')
       (fetch srv (''team/'' @ team_key tm @ ''/districts'') s)"

text \<open>
  \<open>team_social_media\<close> passes the format string itself to \<open>_fetch\<close>: no \<open>%\<close> is applied,
  and \<open>team\<close> is not used.
\<close>

definition team_social_media :: "server \<Rightarrow> pyval \<Rightarrow> state \<Rightarrow> (exn + result) \<times> state" where
  "team_social_media srv tm s =
     returning (wrap_each ''Profile'') (fetch srv ''team/%s/social_media'' s)"

definition events :: "server \<Rightarrow> pyval \<Rightarrow> pyval \<Rightarrow> pyval \<Rightarrow> state \<Rightarrow> (exn + result) \<times> state" where
  "events srv year keys simple s =
     (if truthy keys then returning raw (fetch srv (''events/'' @ str year @ ''/keys'') s)
      else if truthy simple
      then returning raw (fetch srv (''events/'' @ str year @ ''/simple'') s)
      else returning (wrap_each ''Event'') (fetch srv (''events/'' @ str year) s))"

definition event :: "server \<Rightarrow> pyval \<Rightarrow> pyval \<Rightarrow> state \<Rightarrow> (exn + result) \<times> state" where
  "event srv ev simple s =
     (if truthy simple
      then returning (wrap ''Event'') (fetch srv (''event/'' @ str ev @ ''/simple'') s)
      else returning (wrap ''Event'') (fetch srv (''event/'' @ str ev) s))"

definition event_alliances :: "server \<Rightarrow> pyval \<Rightarrow> state \<Rightarrow> (exn + result) \<times> state" where
  "event_alliances srv ev s =
     returning (wrap_each ''Alliance'') (fetch srv (''event/'' @ str ev @ ''/alliances'') s)"

definition event_district_points ::
  "server \<Rightarrow> pyval \<Rightarrow> state \<Rightarrow> (exn + result) \<times> state" where
  "event_district_points srv ev s =
     returning (wrap ''DistrictPoints'')
       (fetch srv (''event/'' @ str ev @ ''/district_points'') s)"

definition event_insights :: "server \<Rightarrow> pyval \<Rightarrow> state \<Rightarrow> (exn + result) \<times> state" where
  "event_insights srv ev s =
     returning (wrap ''Insights'') (fetch srv (''event/'' @ str ev @ ''/insights'') s)"

definition event_oprs :: "server \<Rightarrow> pyval \<Rightarrow> state \<Rightarrow> (exn + result) \<times> state" where
  "event_oprs srv ev s =
     returning (wrap ''OPRs'') (fetch srv (''event/'' @ str ev @ ''/oprs'') s)"

definition event_predictions :: "server \<Rightarrow> pyval \<Rightarrow> state \<Rightarrow> (exn + result) \<times> state" where
  "event_predictions srv ev s =
     returning (wrap ''Predictions'') (fetch srv (''event/'' @ str ev @ ''/predictions'') s)"

definition event_rankings :: "server \<Rightarrow> pyval \<Rightarrow> state \<Rightarrow> (exn + result) \<times> state" where
  "event_rankings srv ev s =
     returning (wrap ''Rankings'') (fetch srv (''event/'' @ str ev @ ''/rankings'') s)"

definition event_teams :: "server \<Rightarrow> pyval \<Rightarrow> pyval \<Rightarrow> state \<Rightarrow> (exn + result) \<times> state" where
  "event_teams srv ev keys s =
     (if truthy keys
      then returning raw (fetch srv (''event/'' @ str ev @ ''/teams/keys'') s)
      else returning (wrap_each ''Team'') (fetch srv (''event/'' @ str ev @ ''/teams'') s))"

definition event_awards :: "server \<Rightarrow> pyval \<Rightarrow> state \<Rightarrow> (exn + result) \<times> state" where
  "event_awards srv ev s =
     returning (wrap_each ''Award'') (fetch srv (''event/'' @ str ev @ ''/awards'') s)"

definition event_matches :: "server \<Rightarrow> pyval \<Rightarrow> pyval \<Rightarrow> state \<Rightarrow> (exn + result) \<times> state" where
  "event_matches srv ev keys s =
     (if truthy keys
      then returning raw (fetch srv (''event/'' @ str ev @ ''/matches/keys'') s)
      else returning (wrap_each ''Match'') (fetch srv (''event/'' @ str ev @ ''/matches'') s))"

text \<open>
  \<open>event[0]\<close>: the first character of a non-empty string; IndexError on the empty string,
  TypeError on a value that cannot be subscripted (\<open>None\<close>, the default, among them).
\<close>

fun subscript0 :: "pyval \<Rightarrow> exn + char" where
  "subscript0 (PStr (c # cs)) = Inr c"
| "subscript0 (PStr []) = Inl IndexError"
| "subscript0 v = Inl TypeError"

text \<open>
  \<^verbatim>\<open>
  if key:
      return Match(self._fetch('match/%s' % key))
  else:
      return Match(self._fetch('match/%s%s_%s%s%s' % (
          year if not event[0].isdigit() else '', event, type, number,
          ('m%s' % round) if not type == 'qm' else '')))
  \<close>
  The condition \<open>event[0].isdigit()\<close> is evaluated first, before any request; \<open>simple\<close>
  is a parameter the body never reads.
\<close>

definition match ::
  "server \<Rightarrow> pyval \<Rightarrow> pyval \<Rightarrow> pyval \<Rightarrow> pyval \<Rightarrow> pyval \<Rightarrow> pyval \<Rightarrow> pyval \<Rightarrow> state
     \<Rightarrow> (exn + result) \<times> state" where
  "match srv key year ev ty number rnd simple s =
     (if truthy key then returning (wrap ''Match'') (fetch srv (''match/'' @ str key) s)
      else
        case subscript0 ev of
          Inl e \<Rightarrow> (Inl e, s)
        | Inr c \<Rightarrow>
            returning (wrap ''Match'')
              (fetch srv
                 (''match/'' @ (if \<not> isdigit c then str year else '''') @ str ev @ ''_''
                    @ str ty @ str number
                    @ (if \<not> ty = PStr ''qm'' then ''m'' @ str rnd else '''')) s))"

definition districts :: "server \<Rightarrow> pyval \<Rightarrow> state \<Rightarrow> (exn + result) \<times> state" where
  "districts srv year s =
     returning (wrap_each ''District'') (fetch srv (''districts/'' @ str year) s)"

definition district_events :: "server \<Rightarrow> pyval \<Rightarrow> pyval \<Rightarrow> state \<Rightarrow> (exn + result) \<times> state" where
  "district_events srv district keys s =
     (if truthy keys
      then returning raw (fetch srv (''district/'' @ str district @ ''/events/keys'') s)
      else returning (wrap_each ''Event'')
             (fetch srv (''district/'' @ str district @ ''/events'') s))"

definition district_rankings :: "server \<Rightarrow> pyval \<Rightarrow> state \<Rightarrow> (exn + result) \<times> state" where
  "district_rankings srv district s =
     returning (wrap_each ''DistrictRanking'')
       (fetch srv (''district/'' @ str district @ ''/rankings'') s)"

definition district_teams ::
  "server \<Rightarrow> pyval \<Rightarrow> pyval \<Rightarrow> pyval \<Rightarrow> state \<Rightarrow> (exn + result) \<times> state" where
  "district_teams srv district year keys s =
     (if truthy keys
      then returning raw
             (fetch srv (''district/'' @ str district @ ''/'' @ str year @ ''/teams/keys'') s)
      else returning (wrap_each ''Team'')
             (fetch srv (''district/'' @ str district @ ''/'' @ str year @ ''/teams'') s))"

section \<open>Construction\<close>

text \<open>
  \<^verbatim>\<open>
  def __init__(self, auth_key):
      self.auth_key = auth_key
      status = self.status()
      if 'Error' in status:
          raise APIKeyError(status['Error'])
  \<close>
  \<open>TBA(auth)\<close> runs against the log of the requests issued so far and gives the new log
  with either the exception or the constructed object: when \<open>__init__\<close> raises, the caller
  gets no object.
\<close>

definition init :: "server \<Rightarrow> string \<Rightarrow> request list \<Rightarrow> (exn + TBA) \<times> request list" where
  "init srv auth log =
     (let self = \<lparr>URL_PRE = ''https://www.thebluealliance.com/api/v3/'', auth_key = auth\<rparr>
      in case status srv \<lparr>client = self, sent = log\<rparr> of
           (Inl e, s) \<Rightarrow> (Inl e, sent s)
         | (Inr st, s) \<Rightarrow>
             if contains ''Error'' st
             then (case getitem st ''Error'' of
                     Inl e \<Rightarrow> (Inl e, sent s)
                   | Inr v \<Rightarrow> (Inl (APIKeyError v), sent s))
             else (Inr (client s), sent s))"

section \<open>Calls\<close>

text \<open>
  A call of a facade method with its arguments, so that a statement can range over every
  method; \<open>invoke\<close> runs the method a call names.
\<close>

datatype call =
  Call_status
| Call_teams pyval pyval pyval
| Call_team pyval pyval
| Call_team_events pyval pyval pyval
| Call_team_awards pyval pyval pyval
| Call_team_matches pyval pyval pyval pyval
| Call_team_years pyval
| Call_team_media pyval pyval
| Call_team_robots pyval
| Call_team_districts pyval
| Call_team_social_media pyval
| Call_events pyval pyval pyval
| Call_event pyval pyval
| Call_event_alliances pyval
| Call_event_district_points pyval
| Call_event_insights pyval
| Call_event_oprs pyval
| Call_event_predictions pyval
| Call_event_rankings pyval
| Call_event_teams pyval pyval
| Call_event_awards pyval
| Call_event_matches pyval pyval
| Call_match pyval pyval pyval pyval pyval pyval pyval
| Call_districts pyval
| Call_district_events pyval pyval
| Call_district_rankings pyval
| Call_district_teams pyval pyval pyval

fun invoke :: "server \<Rightarrow> call \<Rightarrow> state \<Rightarrow> (exn + result) \<times> state" where
  "invoke srv Call_status s = returning (\<lambda>m. Inr (RModel m)) (status srv s)"
| "invoke srv (Call_teams page year keys) s = teams srv page year keys s"
| "invoke srv (Call_team tm simple) s = team srv tm simple s"
| "invoke srv (Call_team_events tm year keys) s = team_events srv tm year keys s"
| "invoke srv (Call_team_awards tm year ev) s = team_awards srv tm year ev s"
| "invoke srv (Call_team_matches tm ev year keys) s = team_matches srv tm ev year keys s"
| "invoke srv (Call_team_years tm) s = team_years srv tm s"
| "invoke srv (Call_team_media tm year) s = team_media srv tm year s"
| "invoke srv (Call_team_robots tm) s = team_robots srv tm s"
| "invoke srv (Call_team_districts tm) s = team_districts srv tm s"
| "invoke srv (Call_team_social_media tm) s = team_social_media srv tm s"
| "invoke srv (Call_events year keys simple) s = events srv year keys simple s"
| "invoke srv (Call_event ev simple) s = event srv ev simple s"
| "invoke srv (Call_event_alliances ev) s = event_alliances srv ev s"
| "invoke srv (Call_event_district_points ev) s = event_district_points srv ev s"
| "invoke srv (Call_event_insights ev) s = event_insights srv ev s"
| "invoke srv (Call_event_oprs ev) s = event_oprs srv ev s"
| "invoke srv (Call_event_predictions ev) s = event_predictions srv ev s"
| "invoke srv (Call_event_rankings ev) s = event_rankings srv ev s"
| "invoke srv (Call_event_teams ev keys) s = event_teams srv ev keys s"
| "invoke srv (Call_event_awards ev) s = event_awards srv ev s"
| "invoke srv (Call_event_matches ev keys) s = event_matches srv ev keys s"
| "invoke srv (Call_match key year ev ty number rnd simple) s =
     match srv key year ev ty number rnd simple s"
| "invoke srv (Call_districts year) s = districts srv year s"
| "invoke srv (Call_district_events district keys) s = district_events srv district keys s"
| "invoke srv (Call_district_rankings district) s = district_rankings srv district s"
| "invoke srv (Call_district_teams district year keys) s =
     district_teams srv district year keys s"

text \<open>
  Fixtures for the concrete evaluations: a remote end that answers every request with an
  empty list, one that answers with an error body, and a client holding the token
  \<open>''k''\<close> that has issued no request yet.
\<close>

definition empty_server :: server where
  "empty_server log r = Inr (JArr [])"

definition error_server :: server where
  "error_server log r = Inr (JObj [(''Error'', JStr ''bad key'')])"

definition fresh :: state where
  "fresh = \<lparr>client = \<lparr>URL_PRE = ''https://www.thebluealliance.com/api/v3/'', auth_key = ''k''\<rparr>,
             sent = []\<rparr>"

section \<open>Properties\<close>

subsection \<open>Decimal rendering\<close>

lemma nth_digit_value: "d < 10 \<Longrightarrow> digit_value (''0123456789'' ! d) = d"
proof -
  assume "d < 10"
  then have "d = 0 \<or> d = 1 \<or> d = 2 \<or> d = 3 \<or> d = 4
      \<or> d = 5 \<or> d = 6 \<or> d = 7 \<or> d = 8 \<or> d = 9"
    by arith
  then show ?thesis by (elim disjE) simp_all
qed

lemma read_digits_snoc: "read_digits (cs @ [c]) = 10 * read_digits cs + digit_value c"
  by (simp add: read_digits_def)

lemma read_digits_digits: "read_digits (digits n) = n"
proof (induction n rule: digits.induct)
  case (1 n)
  show ?case
  proof (cases "n < 10")
    case True
    then show ?thesis
      by (subst digits.simps) (simp add: read_digits_def nth_digit_value del: digit_value.simps)
  next
    case False
    with 1 have "read_digits (digits (n div 10)) = n div 10" by simp
    with False show ?thesis
      by (subst digits.simps)
        (simp add: read_digits_snoc nth_digit_value del: digit_value.simps)
  qed
qed

subsection \<open>Concrete renderings and the fixtures\<close>

lemma str_int_0: "str_int 0 = ''0''"
  by (simp add: str_int_def digits.simps)

lemma str_int_2: "str_int 2 = ''2''"
  by (simp add: str_int_def digits.simps)

lemma str_int_3: "str_int 3 = ''3''"
  by (simp add: str_int_def digits.simps)

lemma str_int_2017: "str_int 2017 = ''2017''"
  by (simp add: str_int_def digits.simps)

lemma team_key_254: "team_key (PInt 254) = ''frc254''"
  by (simp add: str_int_def digits.simps)

lemma request_of_fresh:
  "request_of (client fresh) path =
     \<lparr>url = ''https://www.thebluealliance.com/api/v3/'' @ path,
      headers = [(''X-TBA-Auth-Key'', ''k'')]\<rparr>"
  by (simp add: request_of_def fresh_def)

lemma sent_fresh: "sent fresh = []"
  by (simp add: fresh_def)

subsection \<open>The dispatcher\<close>

text \<open>A fetch appends its request to the log, whatever the remote end answers.\<close>

lemma returning_pair:
  "returning f (x, s) = (case x of Inl e \<Rightarrow> Inl e | Inr v \<Rightarrow> f v, s)"
  by (simp add: returning_def split: sum.splits)

lemma returning_fetch:
  "returning f (fetch srv path s) =
     (case srv (sent s) (request_of (client s) path) of
        Inl e \<Rightarrow> Inl (RequestFailed e)
      | Inr j \<Rightarrow> f j,
      s\<lparr>sent := sent s @ [request_of (client s) path]\<rparr>)"
  by (simp add: returning_def fetch_def Let_def split: sum.splits)

lemma after_fetch:
  "snd (returning f (fetch srv path s)) = s\<lparr>sent := sent s @ [request_of (client s) path]\<rparr>"
  by (simp add: returning_fetch)

lemma status_outcome:
  "status srv s =
     (case srv (sent s) (request_of (client s) ''status'') of
        Inl f \<Rightarrow> Inl (RequestFailed f)
      | Inr j \<Rightarrow> Inr (Model ''Status'' j),
      s\<lparr>sent := sent s @ [request_of (client s) ''status'']\<rparr>)"
  by (simp add: status_def returning_fetch)

lemmas facade_defs =
  status_def teams_def team_def team_events_def team_awards_def team_matches_def
  team_years_def team_media_def team_robots_def team_districts_def team_social_media_def
  events_def event_def event_alliances_def event_district_points_def event_insights_def
  event_oprs_def event_predictions_def event_rankings_def event_teams_def event_awards_def
  event_matches_def match_def districts_def district_events_def district_rankings_def
  district_teams_def

text \<open>
  The three ways a call can end: after one request; with \<open>None\<close> and no request
  (\<open>team_matches\<close> without event and year); with an exception and no request (\<open>match\<close>
  in its composed form, on an event that has no first character).
\<close>

lemma invoke_shape:
  "(\<exists>x path. invoke srv c s = (x, s\<lparr>sent := sent s @ [request_of (client s) path]\<rparr>))
   \<or> (invoke srv c s = (Inr RNone, s)
       \<and> (\<exists>tm ev year keys. c = Call_team_matches tm ev year keys
             \<and> \<not> truthy ev \<and> \<not> truthy year))
   \<or> (\<exists>e. invoke srv c s = (Inl e, s)
       \<and> (\<exists>key year ev ty number rnd simple. c = Call_match key year ev ty number rnd simple
             \<and> \<not> truthy key \<and> subscript0 ev = Inl e))"
  by (cases c) (auto simp add: facade_defs returning_fetch returning_pair split: sum.splits)

subsection \<open>The wrapper of the status response\<close>

lemma getitem_present:
  "k \<in> set (map fst kvs) \<Longrightarrow> \<exists>v. getitem (Model cls (JObj kvs)) k = Inr v"
proof -
  assume "k \<in> set (map fst kvs)"
  then have "map_of kvs k \<noteq> None" by (simp add: map_of_eq_None_iff)
  then obtain v where "map_of kvs k = Some v" by blast
  then show ?thesis by (simp add: getitem_def)
qed

lemma contains_getitem: "contains k m \<Longrightarrow> \<exists>v. getitem m k = Inr v"
proof -
  assume c: "contains k m"
  obtain cls j where m: "m = Model cls j" by (cases m)
  with c obtain kvs where j: "j = JObj kvs" and "k \<in> set (map fst kvs)"
    by (cases j) (simp_all add: contains_def)
  with m show ?thesis using getitem_present by blast
qed

subsection \<open>C1: the composed form of match\<close>

text \<open>
  C1. When \<open>key\<close> is not given (it is falsy) and the event key is a non-empty string with
  first character \<open>c\<close>, \<open>match\<close> requests the path
  \<open>match/<year><event>_<type><number>[m<round>]\<close>: the year is left out exactly when \<open>c\<close>
  is a digit, and \<open>m<round>\<close> is appended exactly when the type is not \<open>'qm'\<close>. In
  particular \<open>match(year=2017, event='chcmp', type='qm', number=2)\<close> requests
  \<open>match/2017chcmp_qm2\<close>, and with \<open>type='sf'\<close>, \<open>number=2\<close>, \<open>round=3\<close> and an event key
  that does not start with a digit the path is \<open>match/<year><event>_sf2m3\<close>.
\<close>

theorem match_composed_path:
  assumes "\<not> truthy key" and "ev = PStr (c # cs)"
  shows "sent (snd (match srv key year ev ty number rnd simple s)) =
           sent s @ [request_of (client s)
             (''match/'' @ (if isdigit c then '''' else str year) @ str ev @ ''_'' @ str ty
                @ str number @ (if ty = PStr ''qm'' then '''' else ''m'' @ str rnd))]
       \<and> sent (snd (match srv key (PInt 2017) (PStr ''chcmp'') (PStr ''qm'') (PInt 2) rnd simple s)) =
           sent s @ [request_of (client s) ''match/2017chcmp_qm2'']
       \<and> (\<not> isdigit c \<longrightarrow>
           sent (snd (match srv key year ev (PStr ''sf'') (PInt 2) (PInt 3) simple s)) =
             sent s @ [request_of (client s) (''match/'' @ str year @ str ev @ ''_sf2m3'')])"
proof -
  have general: "sent (snd (match srv key y ev t n r simple s)) =
           sent s @ [request_of (client s)
             (''match/'' @ (if isdigit c then '''' else str y) @ str ev @ ''_'' @ str t
                @ str n @ (if t = PStr ''qm'' then '''' else ''m'' @ str r))]" for y t n r
    using assms by (simp add: match_def after_fetch)
  have qm: "sent (snd (match srv key (PInt 2017) (PStr ''chcmp'') (PStr ''qm'') (PInt 2) rnd simple s)) =
           sent s @ [request_of (client s) ''match/2017chcmp_qm2'']"
    using assms(1) by (simp add: match_def after_fetch isdigit_def str_int_2017 str_int_2)
  have sf: "sent (snd (match srv key year ev (PStr ''sf'') (PInt 2) (PInt 3) simple s)) =
             sent s @ [request_of (client s) (''match/'' @ str year @ str ev @ ''_sf2m3'')]"
    if "\<not> isdigit c"
    using that general [of year "PStr ''sf''" "PInt 2" "PInt 3"]
    by (simp add: str_int_2 str_int_3)
  from general qm sf show ?thesis by blast
qed

theorem match_composed_path_witness:
  "\<not> truthy PNone \<and> \<not> isdigit CHR ''c''
   \<and> sent (snd (match empty_server PNone (PInt 2017) (PStr ''chcmp'') (PStr ''sf'') (PInt 2) (PInt 3)
        (PBool False) fresh)) =
       [\<lparr>url = ''https://www.thebluealliance.com/api/v3/match/2017chcmp_sf2m3'',
         headers = [(''X-TBA-Auth-Key'', ''k'')]\<rparr>]"
  using match_composed_path [where key = PNone and ev = "PStr ''chcmp''" and c = "CHR ''c''"
      and cs = "''hcmp''" and srv = empty_server and year = "PInt 2017" and s = fresh
      and simple = "PBool False" and ty = "PStr ''sf''" and number = "PInt 2" and rnd = "PInt 3"]
  by (simp add: request_of_fresh sent_fresh isdigit_def str_int_2017 str_int_2 str_int_3)

text \<open>An event key that embeds its year: the \<open>year\<close> argument does not reach the path.\<close>

lemma match_year_in_event_key:
  "sent (snd (match empty_server PNone (PInt 1999) (PStr ''2017chcmp'') (PStr ''qm'') (PInt 2) PNone
        (PBool False) fresh)) =
     [\<lparr>url = ''https://www.thebluealliance.com/api/v3/match/2017chcmp_qm2'',
       headers = [(''X-TBA-Auth-Key'', ''k'')]\<rparr>]"
  by (simp add: match_def after_fetch request_of_fresh sent_fresh isdigit_def str_int_2)

subsection \<open>C2: the path of teams\<close>

text \<open>
  C2 (amended). For every page \<open>p\<close>, \<open>teams(p)\<close> requests \<open>teams/{p}\<close>. With a truthy year
  \<open>y\<close> the year segment comes first and the page segment second: the path is
  \<open>teams/{y}/{p}\<close>, and in both cases \<open>/keys\<close> is appended when \<open>keys\<close> is truthy. The
  form is \<open>teams[/{year}]/{page}[/keys]\<close>.
\<close>

theorem teams_path:
  "sent (snd (teams srv page year keys s)) =
     sent s @ [request_of (client s)
       (''teams/'' @ (if truthy year then str year @ ''/'' else '''') @ str page
          @ (if truthy keys then ''/keys'' else ''''))]
   \<and> sent (snd (teams srv page PNone (PBool False) s)) =
     sent s @ [request_of (client s) (''teams/'' @ str page)]"
  by (simp add: teams_def after_fetch)

text \<open>
  As stated, with the page first, C2 fails: \<open>teams(0, year=2017)\<close> requests
  \<open>teams/2017/0\<close>, not \<open>teams/0/2017\<close>.
\<close>

theorem teams_page_first_counterexample:
  "sent (snd (teams empty_server (PInt 0) (PInt 2017) (PBool False) fresh)) =
     [\<lparr>url = ''https://www.thebluealliance.com/api/v3/teams/2017/0'',
       headers = [(''X-TBA-Auth-Key'', ''k'')]\<rparr>]
   \<and> sent (snd (teams empty_server (PInt 0) (PInt 2017) (PBool False) fresh)) \<noteq>
     [\<lparr>url = ''https://www.thebluealliance.com/api/v3/teams/0/2017'',
       headers = [(''X-TBA-Auth-Key'', ''k'')]\<rparr>]"
  by (simp add: teams_def after_fetch request_of_fresh sent_fresh str_int_2017 str_int_0)

subsection \<open>C3: team_social_media\<close>

text \<open>
  C3. For every team argument, \<open>team_social_media\<close> requests the unformatted string
  \<open>team/%s/social_media\<close> under the base URL: the team key is missing from the path, and
  neither the request nor the result depends on the argument.
\<close>

theorem team_social_media_unformatted:
  "sent (snd (team_social_media srv tm s)) =
     sent s @ [\<lparr>url = URL_PRE (client s) @ ''team/%s/social_media'',
                headers = [(''X-TBA-Auth-Key'', auth_key (client s))]\<rparr>]
   \<and> team_social_media srv tm s = team_social_media srv tm' s"
  by (simp add: team_social_media_def after_fetch request_of_def)

subsection \<open>C4: construction\<close>

text \<open>
  C4. Constructing a client issues exactly one request, the GET of \<open>status\<close> with the
  given token: whatever the outcome, the log afterwards is the log before with that one
  request appended. The constructor raises \<open>APIKeyError\<close> if and only if the remote end
  answered with a decoded mapping that has the key \<open>Error\<close>. Whenever it raises (for this
  or for a failure of the transport) there is no object; otherwise the object holds the
  base URL and the token.
\<close>

theorem init_status_check:
  assumes "init srv auth log = (r, log')"
  shows "log' = log @ [\<lparr>url = ''https://www.thebluealliance.com/api/v3/status'',
                         headers = [(''X-TBA-Auth-Key'', auth)]\<rparr>]
       \<and> ((\<exists>v. r = Inl (APIKeyError v)) \<longleftrightarrow>
            (\<exists>kvs. srv log \<lparr>url = ''https://www.thebluealliance.com/api/v3/status'',
                              headers = [(''X-TBA-Auth-Key'', auth)]\<rparr> = Inr (JObj kvs)
                   \<and> ''Error'' \<in> set (map fst kvs)))
       \<and> ((\<exists>e. r = Inl e) \<or>
            r = Inr \<lparr>URL_PRE = ''https://www.thebluealliance.com/api/v3/'', auth_key = auth\<rparr>)"
proof -
  let ?self = "\<lparr>URL_PRE = ''https://www.thebluealliance.com/api/v3/'', auth_key = auth\<rparr>"
  let ?req = "\<lparr>url = ''https://www.thebluealliance.com/api/v3/status'',
                headers = [(''X-TBA-Auth-Key'', auth)]\<rparr>"
  have req: "request_of ?self ''status'' = ?req" by (simp add: request_of_def)
  show ?thesis
  proof (cases "srv log ?req")
    case (Inl f)
    with assms req show ?thesis
      by (auto simp add: init_def status_outcome Let_def)
  next
    case (Inr j)
    show ?thesis
    proof (cases "contains ''Error'' (Model ''Status'' j)")
      case True
      then obtain v where v: "getitem (Model ''Status'' j) ''Error'' = Inr v"
        using contains_getitem by blast
      from True obtain kvs where "j = JObj kvs" "''Error'' \<in> set (map fst kvs)"
        by (cases j) (simp_all add: contains_def)
      with assms req Inr True v show ?thesis
        by (auto simp add: init_def status_outcome Let_def)
    next
      case False
      then have "\<not> (\<exists>kvs. j = JObj kvs \<and> ''Error'' \<in> set (map fst kvs))"
        by (cases j) (simp_all add: contains_def)
      with assms req Inr False show ?thesis
        by (auto simp add: init_def status_outcome Let_def)
    qed
  qed
qed

theorem init_status_check_witness:
  "init error_server ''k'' [] =
     (Inl (APIKeyError (JStr ''bad key'')),
      [\<lparr>url = ''https://www.thebluealliance.com/api/v3/status'',
        headers = [(''X-TBA-Auth-Key'', ''k'')]\<rparr>])
   \<and> error_server [] \<lparr>url = ''https://www.thebluealliance.com/api/v3/status'',
                       headers = [(''X-TBA-Auth-Key'', ''k'')]\<rparr> =
       Inr (JObj [(''Error'', JStr ''bad key'')])"
proof -
  have run: "init error_server ''k'' [] =
     (Inl (APIKeyError (JStr ''bad key'')),
      [\<lparr>url = ''https://www.thebluealliance.com/api/v3/status'',
        headers = [(''X-TBA-Auth-Key'', ''k'')]\<rparr>])"
    by (simp add: init_def status_outcome request_of_def error_server_def contains_def
        getitem_def Let_def)
  from init_status_check [OF run] run show ?thesis
    by (simp add: error_server_def)
qed

text \<open>A status response without the key: the object is constructed.\<close>

lemma init_accepts:
  "init empty_server ''k'' [] =
     (Inr \<lparr>URL_PRE = ''https://www.thebluealliance.com/api/v3/'', auth_key = ''k''\<rparr>,
      [\<lparr>url = ''https://www.thebluealliance.com/api/v3/status'',
        headers = [(''X-TBA-Auth-Key'', ''k'')]\<rparr>])"
  by (simp add: init_def status_outcome request_of_def empty_server_def contains_def Let_def)

subsection \<open>C5: event scope before year scope\<close>

text \<open>
  C5. For every team and every truthy event \<open>e\<close>, \<open>team_matches\<close> and \<open>team_awards\<close>
  build the event-scoped path, \<open>team/{key}/event/{e}/matches[/keys]\<close> and
  \<open>team/{key}/event/{e}/awards\<close>, and the whole outcome (request and result) is the same
  for any two values of \<open>year\<close>.
\<close>

theorem event_scope_first:
  assumes "truthy ev"
  shows "sent (snd (team_matches srv tm ev year keys s)) =
           sent s @ [request_of (client s)
             (''team/'' @ team_key tm @ ''/event/'' @ str ev @ ''/matches''
                @ (if truthy keys then ''/keys'' else ''''))]
       \<and> team_matches srv tm ev year keys s = team_matches srv tm ev year' keys s
       \<and> sent (snd (team_awards srv tm year ev s)) =
           sent s @ [request_of (client s)
             (''team/'' @ team_key tm @ ''/event/'' @ str ev @ ''/awards'')]
       \<and> team_awards srv tm year ev s = team_awards srv tm year' ev s"
  using assms by (simp add: team_matches_def team_awards_def after_fetch)

theorem event_scope_first_witness:
  "truthy (PStr ''chcmp'')
   \<and> sent (snd (team_matches empty_server (PInt 254) (PStr ''chcmp'') (PInt 2017) (PBool False) fresh)) =
       [\<lparr>url = ''https://www.thebluealliance.com/api/v3/team/frc254/event/chcmp/matches'',
         headers = [(''X-TBA-Auth-Key'', ''k'')]\<rparr>]
   \<and> team_matches empty_server (PInt 254) (PStr ''chcmp'') (PInt 2017) (PBool False) fresh =
       team_matches empty_server (PInt 254) (PStr ''chcmp'') PNone (PBool False) fresh
   \<and> sent (snd (team_awards empty_server (PInt 254) (PInt 2017) (PStr ''chcmp'') fresh)) =
       [\<lparr>url = ''https://www.thebluealliance.com/api/v3/team/frc254/event/chcmp/awards'',
         headers = [(''X-TBA-Auth-Key'', ''k'')]\<rparr>]"
proof -
  have scoped: "truthy (PStr ''chcmp'')" by simp
  note at_254 = event_scope_first [OF scoped, where srv = empty_server and tm = "PInt 254"
      and year = "PInt 2017" and year' = PNone and keys = "PBool False" and s = fresh]
  from at_254 [THEN conjunct1] have matches_path:
    "sent (snd (team_matches empty_server (PInt 254) (PStr ''chcmp'') (PInt 2017) (PBool False) fresh)) =
       [\<lparr>url = ''https://www.thebluealliance.com/api/v3/team/frc254/event/chcmp/matches'',
         headers = [(''X-TBA-Auth-Key'', ''k'')]\<rparr>]"
    by (simp add: request_of_fresh sent_fresh team_key_254 del: team_key.simps)
  from at_254 [THEN conjunct2, THEN conjunct2, THEN conjunct1] have awards_path:
    "sent (snd (team_awards empty_server (PInt 254) (PInt 2017) (PStr ''chcmp'') fresh)) =
       [\<lparr>url = ''https://www.thebluealliance.com/api/v3/team/frc254/event/chcmp/awards'',
         headers = [(''X-TBA-Auth-Key'', ''k'')]\<rparr>]"
    by (simp add: request_of_fresh sent_fresh team_key_254 del: team_key.simps)
  from at_254 have year_ignored:
    "team_matches empty_server (PInt 254) (PStr ''chcmp'') (PInt 2017) (PBool False) fresh =
       team_matches empty_server (PInt 254) (PStr ''chcmp'') PNone (PBool False) fresh"
    by blast
  from scoped matches_path year_ignored awards_path show ?thesis by blast
qed

subsection \<open>C6: the key normalizer\<close>

text \<open>
  C6. For every integer \<open>n\<close> the key normalizer returns \<open>frc\<close> followed by the decimal
  rendering of \<open>n\<close> (a minus sign first when \<open>n\<close> is negative: no bounds are checked), and
  for every string \<open>s\<close> it returns \<open>s\<close> unchanged, whatever \<open>s\<close> is. The rendering is a
  decimal one: read back, the digits give the absolute value of \<open>n\<close>.
\<close>

theorem team_key_normalizes:
  "team_key (PInt n) = ''frc'' @ str_int n
   \<and> str_int n = (if n < 0 then ''-'' else '''') @ digits (nat \<bar>n\<bar>)
   \<and> read_digits (digits (nat \<bar>n\<bar>)) = nat \<bar>n\<bar>
   \<and> team_key (PStr s) = s"
  by (simp add: str_int_def read_digits_digits)

subsection \<open>C7: the requests of one call\<close>

text \<open>
  C7 (amended). No facade call issues more than one request. A call that returns has
  issued exactly one GET, with one exception: \<open>team_matches\<close> with neither a truthy event
  nor a truthy year returns \<open>None\<close> and issues none.
\<close>

theorem invoke_requests:
  assumes "invoke srv c s = (r, s')"
  shows "(sent s' = sent s \<or> (\<exists>path. sent s' = sent s @ [request_of (client s) path]))
       \<and> ((\<exists>v. r = Inr v)
            \<and> \<not> (\<exists>tm ev year keys. c = Call_team_matches tm ev year keys
                     \<and> \<not> truthy ev \<and> \<not> truthy year)
          \<longrightarrow> (\<exists>path. sent s' = sent s @ [request_of (client s) path]))
       \<and> ((\<exists>tm ev year keys. c = Call_team_matches tm ev year keys
                     \<and> \<not> truthy ev \<and> \<not> truthy year)
          \<longrightarrow> r = Inr RNone \<and> s' = s)"
proof -
  from invoke_shape [of srv c s] consider
    (one) x path where "invoke srv c s = (x, s\<lparr>sent := sent s @ [request_of (client s) path]\<rparr>)"
  | (none) "invoke srv c s = (Inr RNone, s)"
      "\<exists>tm ev year keys. c = Call_team_matches tm ev year keys \<and> \<not> truthy ev \<and> \<not> truthy year"
  | (raised) e where "invoke srv c s = (Inl e, s)"
      "\<exists>key year ev ty number rnd simple. c = Call_match key year ev ty number rnd simple"
    by blast
  then show ?thesis
  proof cases
    case one
    with assms have s': "sent s' = sent s @ [request_of (client s) path]" by auto
    have "r = Inr RNone \<and> s' = s"
      if "c = Call_team_matches tm ev year keys" "\<not> truthy ev" "\<not> truthy year"
      for tm ev year keys
      using that assms by (simp add: team_matches_def)
    with s' show ?thesis by blast
  next
    case none
    with assms show ?thesis by simp
  next
    case raised
    with assms show ?thesis by auto
  qed
qed

theorem invoke_requests_witness:
  "invoke empty_server (Call_team (PInt 254) (PBool False)) fresh =
     (Inr (RModel (Model ''Team'' (JArr []))),
      fresh\<lparr>sent := [\<lparr>url = ''https://www.thebluealliance.com/api/v3/team/frc254'',
                        headers = [(''X-TBA-Auth-Key'', ''k'')]\<rparr>]\<rparr>)
   \<and> sent fresh = []"
proof -
  have run: "invoke empty_server (Call_team (PInt 254) (PBool False)) fresh =
     (Inr (RModel (Model ''Team'' (JArr []))),
      fresh\<lparr>sent := [\<lparr>url = ''https://www.thebluealliance.com/api/v3/team/frc254'',
                        headers = [(''X-TBA-Auth-Key'', ''k'')]\<rparr>]\<rparr>)"
    by (simp add: team_def returning_fetch request_of_fresh sent_fresh team_key_254
        empty_server_def wrap_def del: team_key.simps)
  from invoke_requests [OF run] run show ?thesis
    by (simp add: sent_fresh)
qed

text \<open>
  As stated, for every combination of the parameters, C7 fails: \<open>team_matches(254)\<close>
  returns \<open>None\<close> and the log is still empty.
\<close>

theorem one_request_counterexample:
  "invoke empty_server (Call_team_matches (PInt 254) PNone PNone (PBool False)) fresh =
     (Inr RNone, fresh)
   \<and> sent (snd (invoke empty_server (Call_team_matches (PInt 254) PNone PNone (PBool False)) fresh))
       = []"
  by (simp add: team_matches_def sent_fresh)

subsection \<open>C8: the session is not modified\<close>

text \<open>
  C8. For every facade call, in any state, the token and the base URL of the client after
  the call are those before it, and every request the call issued carries that token as
  its only header, \<open>X-TBA-Auth-Key\<close>, and a URL that starts with that base URL.
\<close>

theorem session_unchanged:
  assumes "invoke srv c s = (r, s')"
  shows "auth_key (client s') = auth_key (client s) \<and> URL_PRE (client s') = URL_PRE (client s)
       \<and> (\<exists>rs. sent s' = sent s @ rs
            \<and> (\<forall>q \<in> set rs. headers q = [(''X-TBA-Auth-Key'', auth_key (client s))]
                 \<and> take (length (URL_PRE (client s))) (url q) = URL_PRE (client s)))"
proof -
  from invoke_shape [of srv c s] assms consider
    (one) path where "s' = s\<lparr>sent := sent s @ [request_of (client s) path]\<rparr>"
  | (none) "s' = s"
    by auto
  then show ?thesis
  proof cases
    case one
    then have "sent s' = sent s @ [request_of (client s) path]" by simp
    moreover have "headers (request_of (client s) path) = [(''X-TBA-Auth-Key'', auth_key (client s))]"
      by (simp add: request_of_def)
    moreover have "take (length (URL_PRE (client s))) (url (request_of (client s) path))
        = URL_PRE (client s)"
      by (simp add: request_of_def)
    ultimately show ?thesis using one by simp
  next
    case none
    then show ?thesis by simp
  qed
qed

theorem session_unchanged_witness:
  "invoke empty_server (Call_districts (PInt 2017)) fresh =
     (Inr (RList []),
      fresh\<lparr>sent := [\<lparr>url = ''https://www.thebluealliance.com/api/v3/districts/2017'',
                        headers = [(''X-TBA-Auth-Key'', ''k'')]\<rparr>]\<rparr>)
   \<and> auth_key (client fresh) = ''k''
   \<and> URL_PRE (client fresh) = ''https://www.thebluealliance.com/api/v3/''"
proof -
  have run: "invoke empty_server (Call_districts (PInt 2017)) fresh =
     (Inr (RList []),
      fresh\<lparr>sent := [\<lparr>url = ''https://www.thebluealliance.com/api/v3/districts/2017'',
                        headers = [(''X-TBA-Auth-Key'', ''k'')]\<rparr>]\<rparr>)"
    by (simp add: districts_def returning_fetch request_of_fresh sent_fresh
        empty_server_def wrap_each_def str_int_2017)
  from session_unchanged [OF run] run show ?thesis
    by (simp add: fresh_def)
qed

subsection \<open>C9: team_matches without a scope\<close>

text \<open>
  C9. For every team, when neither the event nor the year is truthy, \<open>team_matches\<close>
  returns \<open>None\<close> and leaves the state as it was: no request is issued and nothing is
  raised.
\<close>

theorem team_matches_no_scope:
  assumes "\<not> truthy ev" and "\<not> truthy year"
  shows "team_matches srv tm ev year keys s = (Inr RNone, s)"
  using assms by (simp add: team_matches_def)

theorem team_matches_no_scope_witness:
  "\<not> truthy PNone
   \<and> team_matches empty_server (PInt 254) PNone PNone (PBool False) fresh = (Inr RNone, fresh)
   \<and> sent fresh = []"
  using team_matches_no_scope [where ev = PNone and year = PNone and srv = empty_server
      and tm = "PInt 254" and keys = "PBool False" and s = fresh]
  by (simp add: sent_fresh)

subsection \<open>C10: the parameter simple of match\<close>

text \<open>
  C10. The parameter \<open>simple\<close> of \<open>match\<close> has no effect: with the other arguments fixed,
  \<open>simple=True\<close> and \<open>simple=False\<close> (and any two values) give the same request, the same
  result and the same state.
\<close>

theorem match_ignores_simple:
  "match srv key year ev ty number rnd (PBool True) s =
     match srv key year ev ty number rnd (PBool False) s
   \<and> match srv key year ev ty number rnd simple s =
     match srv key year ev ty number rnd simple' s"
  by (simp add: match_def)

end
